theory Spec2Isabelle
  imports Main "HOL-Library.Char_ord" "HOL-Library.List_Lexorder"
begin

section \<open>Values shared by all stages\<close>

text \<open>
  The program is a single Go file, \<^verbatim>\<open>main.go\<close>: \<^verbatim>\<open>main\<close> validates nine flags and then
  runs \<^verbatim>\<open>ZipFolder\<close>, \<^verbatim>\<open>EncryptAndSign\<close> and \<^verbatim>\<open>UploadToS3\<close> in sequence. Go strings and byte
  slices are modelled as \<^typ>\<open>string\<close> (a list of bytes).
\<close>

type_synonym bytes = string

type_synonym path = string

text \<open>
  A Go \<^verbatim>\<open>error\<close> value. \<^verbatim>\<open>PathError\<close> stands for the \<^verbatim>\<open>*fs.PathError\<close> that the \<^verbatim>\<open>os\<close>
  package returns, with the \<^verbatim>\<open>errno\<close> it wraps; \<^verbatim>\<open>Errorf\<close> is a value built by
  \<^verbatim>\<open>fmt.Errorf\<close>; \<^verbatim>\<open>LibError\<close> is an error value of one of the libraries the program
  calls (\<^verbatim>\<open>archive/zip\<close>, \<^verbatim>\<open>openpgp\<close>, the AWS SDK).
\<close>

datatype errno = ENOENT | EACCES | ENOTDIR | EISDIR | EIO

datatype error = PathError errno | Errorf string | LibError string

text \<open>
  A Go function of result type \<^verbatim>\<open>error\<close> returns \<^verbatim>\<open>nil\<close> (\<^verbatim>\<open>NoError\<close>) or an error, or it does not
  return at all because the goroutine panics. \<^verbatim>\<open>PanicError\<close> is \<^verbatim>\<open>panic(err)\<close>, the other
  two are run-time panics.
\<close>

datatype panic = NilDereference | IndexOutOfRange | PanicError error

datatype ret = NoError | Err error | Panic panic

subsection \<open>\<^verbatim>\<open>os.Stat\<close> and \<^verbatim>\<open>os.IsNotExist\<close>\<close>

record file_info =
  IsDir :: bool

text \<open>
  \<^verbatim>\<open>os.Stat\<close> is a query to the operating system; its answer for each path is a
  parameter of the model. Go returns the pair \<^verbatim>\<open>(info, err)\<close>: on failure \<^verbatim>\<open>info\<close> is the
  nil interface and \<^verbatim>\<open>err\<close> a \<^verbatim>\<open>*PathError\<close>, on success \<^verbatim>\<open>err\<close> is nil.
\<close>

type_synonym stat_oracle = "string \<Rightarrow> errno + file_info"

definition os_Stat :: "stat_oracle \<Rightarrow> string \<Rightarrow> file_info option \<times> error option" where
  "os_Stat st path =
     (case st path of
        Inl e \<Rightarrow> (None, Some (PathError e))
      | Inr fi \<Rightarrow> (Some fi, None))"

text \<open>
  \<^verbatim>\<open>os.IsNotExist\<close> holds of an error that wraps \<^verbatim>\<open>ENOENT\<close> and of nothing else; in
  particular it is false of \<^verbatim>\<open>nil\<close>, of \<^verbatim>\<open>EACCES\<close> and of \<^verbatim>\<open>ENOTDIR\<close>.
\<close>

fun os_IsNotExist :: "error option \<Rightarrow> bool" where
  "os_IsNotExist (Some (PathError ENOENT)) = True"
| "os_IsNotExist _ = False"

subsection \<open>\<^verbatim>\<open>isDirExists\<close>, \<^verbatim>\<open>isFileExists\<close>, \<^verbatim>\<open>validateInputs\<close>\<close>

text \<open>
  \<^verbatim>\<open>isDirExists\<close> calls the method \<^verbatim>\<open>IsDir\<close> on \<^verbatim>\<open>info\<close> whenever the error is not a
  not-exist error; on a nil \<^verbatim>\<open>info\<close> that call is a nil-pointer dereference.
\<close>

definition isDirExists :: "stat_oracle \<Rightarrow> string \<Rightarrow> panic + bool" where
  "isDirExists st path =
     (let (info, err) = os_Stat st path in
      if os_IsNotExist err then Inr False
      else (case info of None \<Rightarrow> Inl NilDereference | Some fi \<Rightarrow> Inr (IsDir fi)))"

definition isFileExists :: "stat_oracle \<Rightarrow> string \<Rightarrow> bool" where
  "isFileExists st path =
     (let (info, err) = os_Stat st path in
      if os_IsNotExist err then False else True)"

definition validateInputs ::
  "stat_oracle \<Rightarrow> path \<Rightarrow> path \<Rightarrow> path \<Rightarrow> string \<Rightarrow> string \<Rightarrow> string \<Rightarrow> string
     \<Rightarrow> string \<Rightarrow> string \<Rightarrow> ret" where
  "validateInputs st folderPath trustedPublicKeyPath serverPrivateKeyPath signingKeyPassword
       bucketName s3KeyName awsRegion awsAccessKey awsSecretKey =
     (if folderPath = [] then Err (Errorf ''Invalid or missing folder path'')
      else case isDirExists st folderPath of
        Inl p \<Rightarrow> Panic p
      | Inr False \<Rightarrow> Err (Errorf ''Invalid or missing folder path'')
      | Inr True \<Rightarrow>
          if trustedPublicKeyPath = []
          then Err (Errorf ''Invalid or missing trusted public key path'')
          else if \<not> isFileExists st trustedPublicKeyPath
          then Err (Errorf ''Invalid or missing trusted public key path'')
          else if serverPrivateKeyPath = []
          then Err (Errorf ''Invalid or missing server private key path'')
          else if \<not> isFileExists st serverPrivateKeyPath
          then Err (Errorf ''Invalid or missing server private key path'')
          else if signingKeyPassword = []
          then Err (Errorf ''Invalid or missing signing key password'')
          else if awsRegion = []
          then Err (Errorf ''Invalid or missing S3 bucket region'')
          else if bucketName = [] \<or> s3KeyName = []
          then Err (Errorf ''Invalid or missing S3 bucket name or key name'')
          else if awsAccessKey = [] \<or> awsSecretKey = []
          then Err (Errorf ''Invalid or missing AWS access key or secret key'')
          else NoError)"

section \<open>The archiver\<close>

subsection \<open>Paths: \<^verbatim>\<open>filepath.Clean\<close>, \<^verbatim>\<open>filepath.Join\<close>, \<^verbatim>\<open>strings.TrimPrefix\<close>\<close>

text \<open>
  \<^verbatim>\<open>filepath.Walk\<close> names every file below the root by \<^verbatim>\<open>filepath.Join(dir, name)\<close>, and
  \<^verbatim>\<open>Join\<close> returns the \<^verbatim>\<open>Clean\<close>ed path. \<^verbatim>\<open>Clean\<close> (Unix, separator \<^verbatim>\<open>/\<close>) reads the path
  from left to right and writes the cleaned path into an output buffer: an empty element
  and a \<^verbatim>\<open>.\<close> element are dropped, a \<^verbatim>\<open>..\<close> element removes the last element written (down to
  the position \<^verbatim>\<open>dotdot\<close>) or, when nothing can be removed and the path is not rooted, is
  written itself, and any other element is copied behind a separator.
\<close>

fun backtrack :: "string \<Rightarrow> nat \<Rightarrow> nat \<Rightarrow> nat" where
  "backtrack out dotdot 0 = 0"
| "backtrack out dotdot (Suc w) =
     (if Suc w > dotdot \<and> out ! Suc w \<noteq> CHR ''/'' then backtrack out dotdot w else Suc w)"

function clean_loop :: "bool \<Rightarrow> string \<Rightarrow> string \<Rightarrow> nat \<Rightarrow> string" where
  "clean_loop rooted [] out dotdot = out"
| "clean_loop rooted (c # cs) out dotdot =
     (if c = CHR ''/'' then clean_loop rooted cs out dotdot
      else if c = CHR ''.'' \<and> (cs = [] \<or> hd cs = CHR ''/'') then clean_loop rooted cs out dotdot
      else if c = CHR ''.'' \<and> hd cs = CHR ''.'' \<and> (tl cs = [] \<or> hd (tl cs) = CHR ''/'') then
        (if length out > dotdot
         then clean_loop rooted (tl cs) (take (backtrack out dotdot (length out - 1)) out) dotdot
         else if \<not> rooted
         then (let out' = (if out \<noteq> [] then out @ ''/'' else out) @ ''..''
               in clean_loop rooted (tl cs) out' (length out'))
         else clean_loop rooted (tl cs) out dotdot)
      else clean_loop rooted (dropWhile (\<lambda>x. x \<noteq> CHR ''/'') cs)
             ((if (if rooted then length out \<noteq> 1 else length out \<noteq> 0) then out @ ''/'' else out)
                @ c # takeWhile (\<lambda>x. x \<noteq> CHR ''/'') cs)
             dotdot)"
  by pat_completeness auto
termination
  by (relation "measure (\<lambda>(rooted, path, out, dotdot). length path)")
     (auto intro: le_imp_less_Suc length_dropWhile_le)

definition Clean :: "string \<Rightarrow> string" where
  "Clean path =
     (if path = [] then ''.''
      else let rooted = (hd path = CHR ''/'');
               out = (if rooted then clean_loop True (tl path) ''/'' 1
                      else clean_loop False path [] 0)
           in if out = [] then ''.'' else out)"

text \<open>\<^verbatim>\<open>Join(a, b)\<close>: the elements from the first non-empty one on, joined by \<^verbatim>\<open>/\<close> and cleaned.\<close>

definition Join :: "string \<Rightarrow> string \<Rightarrow> string" where
  "Join a b =
     (if a \<noteq> [] then Clean (a @ ''/'' @ b)
      else if b \<noteq> [] then Clean b
      else [])"

definition TrimPrefix :: "string \<Rightarrow> string \<Rightarrow> string" where
  "TrimPrefix s pre = (if take (length pre) s = pre then drop (length pre) s else s)"

subsection \<open>The directory tree that the walk sees\<close>

text \<open>
  A node is what the operating system answers for one path during the walk. \<^verbatim>\<open>File r\<close> is
  a path whose \<^verbatim>\<open>Lstat\<close> succeeds and is not a directory, with \<^verbatim>\<open>r\<close> the result of
  \<^verbatim>\<open>ioutil.ReadFile\<close> on it; \<^verbatim>\<open>Dir es\<close> is a directory whose listing succeeds, with its
  entries in the order the operating system reports them; \<^verbatim>\<open>DirUnreadable e\<close> is a
  directory whose \<^verbatim>\<open>Lstat\<close> succeeds and whose listing fails with \<^verbatim>\<open>e\<close>; \<^verbatim>\<open>NoStat e\<close> is a
  path whose \<^verbatim>\<open>Lstat\<close> fails with \<^verbatim>\<open>e\<close> (a file deleted between the listing and the visit).
\<close>

datatype fsnode =
    File "error + bytes"
  | Dir "(string \<times> fsnode) list"
  | DirUnreadable error
  | NoStat error

fun os_Lstat :: "fsnode \<Rightarrow> file_info option \<times> error option" where
  "os_Lstat (File r) = (Some \<lparr>IsDir = False\<rparr>, None)"
| "os_Lstat (Dir es) = (Some \<lparr>IsDir = True\<rparr>, None)"
| "os_Lstat (DirUnreadable e) = (Some \<lparr>IsDir = True\<rparr>, None)"
| "os_Lstat (NoStat e) = (None, Some e)"

fun ReadFile :: "fsnode \<Rightarrow> error + bytes" where
  "ReadFile (File r) = r"
| "ReadFile (Dir es) = Inl (PathError EISDIR)"
| "ReadFile (DirUnreadable e) = Inl (PathError EISDIR)"
| "ReadFile (NoStat e) = Inl e"

subsection \<open>\<^verbatim>\<open>zip.Writer\<close> on a \<^verbatim>\<open>bytes.Buffer\<close>\<close>

text \<open>
  A \<^verbatim>\<open>zip.Writer\<close> is modelled by the archive it has been given: the entries written
  through it so far, in order, and whether it was closed (\<^verbatim>\<open>Close\<close> writes the central
  directory and flushes everything to the buffer below, which \<^verbatim>\<open>main\<close> passes new and
  empty). Writing to a \<^verbatim>\<open>bytes.Buffer\<close> does not fail, so
  \<^verbatim>\<open>Create\<close> fails only for a name longer than 65535 bytes, \<^verbatim>\<open>Write\<close> never, and \<^verbatim>\<open>Close\<close>
  only on a writer that is closed already. \<^verbatim>\<open>Create\<close> does not inspect the name
  otherwise: it stores names with a leading \<^verbatim>\<open>/\<close> or a \<^verbatim>\<open>..\<close> element as they are.
\<close>

record archive =
  entries :: "(string \<times> bytes) list"
  finalized :: bool

definition NewWriter :: archive where
  "NewWriter = \<lparr>entries = [], finalized = False\<rparr>"

definition zip_Create :: "archive \<Rightarrow> string \<Rightarrow> error + archive" where
  "zip_Create zw name =
     (if length name > 65535 then Inl (LibError ''zip: FileHeader.Name too long'')
      else Inr (zw\<lparr>entries := entries zw @ [(name, [])]\<rparr>))"

definition zip_Write :: "archive \<Rightarrow> bytes \<Rightarrow> archive" where
  "zip_Write zw data =
     zw\<lparr>entries := butlast (entries zw) @ [(fst (last (entries zw)), snd (last (entries zw)) @ data)]\<rparr>"

definition zip_Close :: "archive \<Rightarrow> ret \<times> archive" where
  "zip_Close zw =
     (if finalized zw then (Err (LibError ''zip: writer closed twice''), zw)
      else (NoError, zw\<lparr>finalized := True\<rparr>))"

subsection \<open>\<^verbatim>\<open>filepath.Walk\<close>\<close>

text \<open>
  \<^verbatim>\<open>Walk(root, fn)\<close> calls \<^verbatim>\<open>Lstat(root)\<close>; when that fails it calls \<^verbatim>\<open>fn(root, nil, err)\<close>,
  otherwise it runs \<^verbatim>\<open>walk\<close>. \<^verbatim>\<open>walk(path, info, fn)\<close> calls \<^verbatim>\<open>fn(path, info, nil)\<close> for
  a non-directory. For a directory it reads the names and sorts them, calls
  \<^verbatim>\<open>fn(path, info, err)\<close> with the error of the listing, and returns what \<^verbatim>\<open>fn\<close> returned
  when the listing failed or \<^verbatim>\<open>fn\<close> returned non-nil; otherwise, for each name in sorted
  order, it calls \<^verbatim>\<open>Lstat(Join(path, name))\<close> and then either \<^verbatim>\<open>fn(filename, nil, err)\<close> (when
  \<^verbatim>\<open>Lstat\<close> failed) or \<^verbatim>\<open>walk\<close> recursively, and stops at the first non-nil result.
  The callback is a parameter; it threads a state (here: the zip writer) and gets the
  node at \<^verbatim>\<open>path\<close> so that it can read the file there. A panic of the callback ends the
  walk like a non-nil result. (\<^verbatim>\<open>filepath.SkipDir\<close> is not modelled: no error value of
  this program is \<^verbatim>\<open>SkipDir\<close>.)
\<close>

type_synonym 'st walk_fn =
  "'st \<Rightarrow> string \<Rightarrow> fsnode \<Rightarrow> file_info option \<Rightarrow> error option \<Rightarrow> ret \<times> 'st"

function walk :: "'st walk_fn \<Rightarrow> string \<Rightarrow> fsnode \<Rightarrow> 'st \<Rightarrow> ret \<times> 'st"
  and walk_names :: "'st walk_fn \<Rightarrow> string \<Rightarrow> (string \<times> fsnode) list \<Rightarrow> 'st \<Rightarrow> ret \<times> 'st"
where
  "walk fn path (File r) st = fn st path (File r) (Some \<lparr>IsDir = False\<rparr>) None"
| "walk fn path (Dir es) st =
     (case fn st path (Dir es) (Some \<lparr>IsDir = True\<rparr>) None of
        (NoError, st1) \<Rightarrow> walk_names fn path (sort_key fst es) st1
      | (err1, st1) \<Rightarrow> (err1, st1))"
| "walk fn path (DirUnreadable e) st =
     fn st path (DirUnreadable e) (Some \<lparr>IsDir = True\<rparr>) (Some e)"
| "walk fn path (NoStat e) st = (Panic NilDereference, st)"
| "walk_names fn path [] st = (NoError, st)"
| "walk_names fn path ((name, child) # rest) st =
     (let filename = Join path name in
      case os_Lstat child of
        (fileInfo, Some err) \<Rightarrow>
          (case fn st filename child fileInfo (Some err) of
             (NoError, st1) \<Rightarrow> walk_names fn path rest st1
           | (err1, st1) \<Rightarrow> (err1, st1))
      | (fileInfo, None) \<Rightarrow>
          (case walk fn filename child st of
             (NoError, st1) \<Rightarrow> walk_names fn path rest st1
           | (err1, st1) \<Rightarrow> (err1, st1)))"
  by pat_completeness auto
termination
proof -
  have ins: "size_list f (insort_key k x xs) = Suc (f x + size_list f xs)"
    for f :: "string \<times> fsnode \<Rightarrow> nat" and k :: "string \<times> fsnode \<Rightarrow> string" and x xs
    by (induction xs) auto
  have srt: "size_list f (sort_key k xs) = size_list f xs"
    for f :: "string \<times> fsnode \<Rightarrow> nat" and k :: "string \<times> fsnode \<Rightarrow> string" and xs
    by (induction xs) (auto simp: ins)
  show ?thesis
    by (relation "measure (\<lambda>x. case x of
            Inl (fn, path, node, st) \<Rightarrow> Suc (2 * size node)
          | Inr (fn, path, es, st) \<Rightarrow> 2 * size_list (size_prod (\<lambda>_. 0) size) es)")
       (auto simp: srt)
qed

definition Walk :: "'st walk_fn \<Rightarrow> string \<Rightarrow> fsnode \<Rightarrow> 'st \<Rightarrow> ret \<times> 'st" where
  "Walk fn root node st =
     (case os_Lstat node of
        (info, Some err) \<Rightarrow> fn st root node None (Some err)
      | (info, None) \<Rightarrow> walk fn root node st)"

subsection \<open>\<^verbatim>\<open>ZipFolder\<close>\<close>

text \<open>
  The callback of \<^verbatim>\<open>ZipFolder\<close> ignores its \<^verbatim>\<open>err\<close> argument and starts with
  \<^verbatim>\<open>info.IsDir()\<close>, a nil-pointer dereference when \<^verbatim>\<open>info\<close> is nil.
\<close>

definition zip_callback :: "string \<Rightarrow> archive walk_fn" where
  "zip_callback folderPath zipWriter path node info err =
     (case info of
        None \<Rightarrow> (Panic NilDereference, zipWriter)
      | Some fi \<Rightarrow>
          if \<not> IsDir fi then
            (case ReadFile node of
               Inl e \<Rightarrow> (Err e, zipWriter)
             | Inr data \<Rightarrow>
                 (case zip_Create zipWriter (TrimPrefix path (folderPath @ ''/'')) of
                    Inl e \<Rightarrow> (Err e, zipWriter)
                  | Inr f \<Rightarrow> (NoError, zip_Write f data)))
          else (NoError, zipWriter))"

text \<open>
  \<^verbatim>\<open>ZipFolder folderPath node\<close>: \<^verbatim>\<open>node\<close> is what the file system holds at \<^verbatim>\<open>folderPath\<close>.
  The result is the returned error together with the state of the \<^verbatim>\<open>zip.Writer\<close>: the
  entries handed to it so far and whether it was closed. When \<^verbatim>\<open>ZipFolder\<close> returns nil
  the writer has been closed and flushed, and \<^verbatim>\<open>zipBuffer\<close> holds exactly this archive.
  When it returns an error or panics the writer was never closed; it buffers its
  output, so \<^verbatim>\<open>zipBuffer\<close> then holds only a prefix of the encoding of these entries
  (nothing at all for small files).
\<close>

definition ZipFolder :: "string \<Rightarrow> fsnode \<Rightarrow> ret \<times> archive" where
  "ZipFolder folderPath node =
     (case Walk (zip_callback folderPath) folderPath node NewWriter of
        (NoError, zipWriter) \<Rightarrow> zip_Close zipWriter
      | (err, zipWriter) \<Rightarrow> (err, zipWriter))"

subsection \<open>Notions used to state the properties\<close>

text \<open>
  \<^verbatim>\<open>sort_listings\<close> is the same tree with every directory listing in lexicographic order
  of the names. Two trees with the same \<^verbatim>\<open>sort_listings\<close> hold the same files and
  directories and differ at most in the order in which the operating system lists them.
\<close>

fun sort_listings :: "fsnode \<Rightarrow> fsnode" where
  "sort_listings (Dir es) = Dir (sort_key fst (map (\<lambda>p. (fst p, sort_listings (snd p))) es))"
| "sort_listings (File r) = File r"
| "sort_listings (DirUnreadable e) = DirUnreadable e"
| "sort_listings (NoStat e) = NoStat e"

text \<open>A tree of directories only, all of them listable: an empty directory tree.\<close>

fun only_dirs :: "fsnode \<Rightarrow> bool" where
  "only_dirs (Dir es) = list_all (\<lambda>p. only_dirs (snd p)) es"
| "only_dirs (File r) = False"
| "only_dirs (DirUnreadable e) = False"
| "only_dirs (NoStat e) = False"

section \<open>Keys, the OpenPGP engine and the object store\<close>

text \<open>
  Of an \<^verbatim>\<open>openpgp.Entity\<close> the program reads \<^verbatim>\<open>PrivateKey\<close> (nil for an identity that
  has only public key material) and its flag \<^verbatim>\<open>Encrypted\<close> (the key is protected by a
  passphrase and still locked). \<^verbatim>\<open>KeyId\<close> tells identities apart.
\<close>

record private_key =
  Encrypted :: bool

record entity =
  KeyId :: nat
  PrivateKey :: "private_key option"

text \<open>
  Everything outside \<^verbatim>\<open>main.go\<close> that a run depends on is a field of \<^verbatim>\<open>world\<close>: the file
  system, the parser of armored key rings, the unlocking of a private key, the three
  calls of the encrypting writer (each yields the bytes it appends to the sink and its
  error), and the object store. The theorems hold for every world. \<^verbatim>\<open>pgp_Encrypt\<close> is
  the part of \<^verbatim>\<open>openpgp.Encrypt\<close> that depends on the key material and on chance (choosing
  the recipients' encryption keys and the ciphers, drawing the session key, writing the
  session-key packets); the checks of \<^verbatim>\<open>openpgp.Encrypt\<close> on its arguments are written out
  in \<^verbatim>\<open>openpgp_Encrypt\<close> below.
\<close>

record world =
  fs_Stat :: stat_oracle
  fs_Node :: "string \<Rightarrow> fsnode"
  fs_Open :: "string \<Rightarrow> error + bytes"
  pgp_ReadArmoredKeyRing :: "bytes \<Rightarrow> error + entity list"
  pgp_Decrypt :: "entity \<Rightarrow> string \<Rightarrow> error option"
  pgp_Encrypt :: "entity list \<Rightarrow> entity \<Rightarrow> bytes \<times> error option"
  pgp_Write :: "entity list \<Rightarrow> entity \<Rightarrow> archive \<Rightarrow> bytes \<times> error option"
  pgp_Close :: "entity list \<Rightarrow> entity \<Rightarrow> archive \<Rightarrow> bytes \<times> error option"
  aws_NewSession :: "string \<Rightarrow> string \<Rightarrow> string \<Rightarrow> error option"
  s3_PutObject :: "string \<Rightarrow> string \<Rightarrow> bytes \<Rightarrow> error option"

text \<open>What a run does to the outside, in order.\<close>

datatype event =
    EvPrintError error
  | EvWalk string
  | EvOpen string
  | EvEncrypt "entity list" entity
  | EvNewSession string
  | EvPutObject string string bytes
  | EvPrintSuccess string string

subsection \<open>\<^verbatim>\<open>EncryptAndSign\<close>\<close>

text \<open>
  The loop over \<^verbatim>\<open>privateKeyList\<close>: every identity with a locked private key is unlocked
  in place with the passphrase (a successful \<^verbatim>\<open>Decrypt\<close> clears \<^verbatim>\<open>Encrypted\<close>); the first
  failure is returned.
\<close>

definition locked :: "entity \<Rightarrow> bool" where
  "locked e = (case PrivateKey e of None \<Rightarrow> False | Some k \<Rightarrow> Encrypted k)"

definition unlocked :: "entity \<Rightarrow> entity" where
  "unlocked e = e\<lparr>PrivateKey := map_option (\<lambda>k. k\<lparr>Encrypted := False\<rparr>) (PrivateKey e)\<rparr>"

fun unlock_loop :: "(entity \<Rightarrow> string \<Rightarrow> error option) \<Rightarrow> string \<Rightarrow> entity list \<Rightarrow> error + entity list" where
  "unlock_loop dec pw [] = Inr []"
| "unlock_loop dec pw (e # rest) =
     (if locked e then
        (case dec e pw of
           Some err \<Rightarrow> Inl err
         | None \<Rightarrow> map_sum id ((#) (unlocked e)) (unlock_loop dec pw rest))
      else map_sum id ((#) e) (unlock_loop dec pw rest))"

text \<open>
  \<^verbatim>\<open>openpgp.Encrypt\<close> (golang.org/x/crypto v0.13.0, as documented and written): with no
  recipient it returns the error "no encryption recipient provided" before it writes
  anything; it returns the error of the recipient and session-key steps if one fails;
  and it returns an error when the signer has no private key or a private key that is
  still locked. The bytes already appended to the sink stay there.
\<close>

definition openpgp_Encrypt :: "world \<Rightarrow> entity list \<Rightarrow> entity \<Rightarrow> bytes \<times> error option" where
  "openpgp_Encrypt w to signed =
     (if to = []
      then ([], Some (LibError ''openpgp: invalid argument: no encryption recipient provided''))
      else case pgp_Encrypt w to signed of
        (out1, Some err) \<Rightarrow> (out1, Some err)
      | (out1, None) \<Rightarrow>
          (case PrivateKey signed of
             None \<Rightarrow>
               (out1, Some (LibError ''openpgp: invalid argument: no private key in signing key''))
           | Some k \<Rightarrow>
               if Encrypted k
               then (out1, Some (LibError ''openpgp: invalid argument: signing key must be decrypted''))
               else (out1, None)))"

text \<open>
  \<^verbatim>\<open>openpgp.Encrypt(encryptedBuffer, publicKeyList, privateKeyList[0], nil, nil)\<close>, then
  \<^verbatim>\<open>w.Write(zipBuffer.Bytes())\<close> and \<^verbatim>\<open>w.Close()\<close>. The engine writes into
  \<^verbatim>\<open>encryptedBuffer\<close> itself; what it has appended stays there when a later step fails.
\<close>

definition encrypt_steps ::
  "world \<Rightarrow> archive \<Rightarrow> entity list \<Rightarrow> entity \<Rightarrow> bytes \<Rightarrow> ret \<times> bytes" where
  "encrypt_steps w zipBuffer to signed encryptedBuffer =
     (case openpgp_Encrypt w to signed of
        (out1, Some err) \<Rightarrow> (Err err, encryptedBuffer @ out1)
      | (out1, None) \<Rightarrow>
          (case pgp_Write w to signed zipBuffer of
             (out2, Some err) \<Rightarrow> (Err err, encryptedBuffer @ out1 @ out2)
           | (out2, None) \<Rightarrow>
               (case pgp_Close w to signed zipBuffer of
                  (out3, Some err) \<Rightarrow> (Err err, encryptedBuffer @ out1 @ out2 @ out3)
                | (out3, None) \<Rightarrow> (NoError, encryptedBuffer @ out1 @ out2 @ out3))))"

definition EncryptAndSign ::
  "world \<Rightarrow> archive \<Rightarrow> string \<Rightarrow> string \<Rightarrow> bytes \<Rightarrow> string \<Rightarrow> ret \<times> bytes \<times> event list" where
  "EncryptAndSign w zipBuffer trustedPublicKeyPath serverPrivateKeyPath encryptedBuffer
       signingKeyPassword =
     (case fs_Open w trustedPublicKeyPath of
        Inl err \<Rightarrow> (Err err, encryptedBuffer, [EvOpen trustedPublicKeyPath])
      | Inr publicKeyFile \<Rightarrow>
     (case pgp_ReadArmoredKeyRing w publicKeyFile of
        Inl err \<Rightarrow> (Err err, encryptedBuffer, [EvOpen trustedPublicKeyPath])
      | Inr publicKeyList \<Rightarrow>
     (case fs_Open w serverPrivateKeyPath of
        Inl err \<Rightarrow>
          (Err err, encryptedBuffer, [EvOpen trustedPublicKeyPath, EvOpen serverPrivateKeyPath])
      | Inr privateKeyFile \<Rightarrow>
     (case pgp_ReadArmoredKeyRing w privateKeyFile of
        Inl err \<Rightarrow>
          (Err err, encryptedBuffer, [EvOpen trustedPublicKeyPath, EvOpen serverPrivateKeyPath])
      | Inr parsed \<Rightarrow>
     (case unlock_loop (pgp_Decrypt w) signingKeyPassword parsed of
        Inl err \<Rightarrow>
          (Err err, encryptedBuffer, [EvOpen trustedPublicKeyPath, EvOpen serverPrivateKeyPath])
      | Inr privateKeyList \<Rightarrow>
     (case privateKeyList of
        [] \<Rightarrow>
          (Panic IndexOutOfRange, encryptedBuffer,
           [EvOpen trustedPublicKeyPath, EvOpen serverPrivateKeyPath])
      | signed # others \<Rightarrow>
          (case encrypt_steps w zipBuffer publicKeyList signed encryptedBuffer of
             (r, buf) \<Rightarrow>
               (r, buf, [EvOpen trustedPublicKeyPath, EvOpen serverPrivateKeyPath,
                         EvEncrypt publicKeyList signed]))))))))"

subsection \<open>The selection policy in the words of the specification\<close>

text \<open>
  An identity holds usable private key material when it has a private key that is not
  locked (any more); the specification chooses the first such identity in listed order.
\<close>

definition usable :: "entity \<Rightarrow> bool" where
  "usable e = (case PrivateKey e of None \<Rightarrow> False | Some k \<Rightarrow> \<not> Encrypted k)"

definition first_usable :: "entity list \<Rightarrow> entity option" where
  "first_usable es = find usable es"

subsection \<open>Reading a message back\<close>



subsection \<open>\<^verbatim>\<open>UploadToS3\<close>\<close>

definition UploadToS3 ::
  "world \<Rightarrow> bytes \<Rightarrow> string \<Rightarrow> string \<Rightarrow> string \<Rightarrow> string \<Rightarrow> string \<Rightarrow> ret \<times> event list" where
  "UploadToS3 w encryptedBuffer bucketName fileName region accessKey secretKey =
     (case aws_NewSession w region accessKey secretKey of
        Some err \<Rightarrow> (Panic (PanicError err), [EvNewSession region])
      | None \<Rightarrow>
          (case s3_PutObject w bucketName fileName encryptedBuffer of
             Some err \<Rightarrow>
               (Err err, [EvNewSession region, EvPutObject bucketName fileName encryptedBuffer])
           | None \<Rightarrow>
               (NoError, [EvNewSession region, EvPutObject bucketName fileName encryptedBuffer])))"

text \<open>The events that only \<^verbatim>\<open>UploadToS3\<close> produces.\<close>

fun is_upload :: "event \<Rightarrow> bool" where
  "is_upload (EvNewSession region) = True"
| "is_upload (EvPutObject bucketName fileName body) = True"
| "is_upload ev = False"

section \<open>\<^verbatim>\<open>main\<close>\<close>

record flags =
  flag_folder :: string
  flag_tpubkey :: string
  flag_sprivkey :: string
  flag_signingpassword :: string
  flag_bucket :: string
  flag_s3key :: string
  flag_aws_region :: string
  flag_aws_access_key :: string
  flag_aws_secret_key :: string

text \<open>A run: what it did, and the panic that ended it (\<^verbatim>\<open>None\<close>: \<^verbatim>\<open>main\<close> returned).\<close>

record run =
  trace :: "event list"
  crash :: "panic option"

definition main :: "world \<Rightarrow> flags \<Rightarrow> run" where
  "main w f =
     (case validateInputs (fs_Stat w) (flag_folder f) (flag_tpubkey f) (flag_sprivkey f)
             (flag_signingpassword f) (flag_bucket f) (flag_s3key f) (flag_aws_region f)
             (flag_aws_access_key f) (flag_aws_secret_key f) of
        Panic p \<Rightarrow> \<lparr>trace = [], crash = Some p\<rparr>
      | Err err \<Rightarrow> \<lparr>trace = [EvPrintError err], crash = None\<rparr>
      | NoError \<Rightarrow>
     (case ZipFolder (flag_folder f) (fs_Node w (flag_folder f)) of
        (Panic p, zipBuffer) \<Rightarrow> \<lparr>trace = [EvWalk (flag_folder f)], crash = Some p\<rparr>
      | (Err err, zipBuffer) \<Rightarrow>
          \<lparr>trace = [EvWalk (flag_folder f)], crash = Some (PanicError err)\<rparr>
      | (NoError, zipBuffer) \<Rightarrow>
     (case EncryptAndSign w zipBuffer (flag_tpubkey f) (flag_sprivkey f) []
             (flag_signingpassword f) of
        (Panic p, encryptedBuffer, evs) \<Rightarrow>
          \<lparr>trace = EvWalk (flag_folder f) # evs, crash = Some p\<rparr>
      | (Err err, encryptedBuffer, evs) \<Rightarrow>
          \<lparr>trace = EvWalk (flag_folder f) # evs, crash = Some (PanicError err)\<rparr>
      | (NoError, encryptedBuffer, evs) \<Rightarrow>
     (case UploadToS3 w encryptedBuffer (flag_bucket f) (flag_s3key f) (flag_aws_region f)
             (flag_aws_access_key f) (flag_aws_secret_key f) of
        (Panic p, evs2) \<Rightarrow> \<lparr>trace = EvWalk (flag_folder f) # evs @ evs2, crash = Some p\<rparr>
      | (Err err, evs2) \<Rightarrow>
          \<lparr>trace = EvWalk (flag_folder f) # evs @ evs2, crash = Some (PanicError err)\<rparr>
      | (NoError, evs2) \<Rightarrow>
          \<lparr>trace = EvWalk (flag_folder f) # evs @ evs2
                     @ [EvPrintSuccess (flag_bucket f) (flag_s3key f)],
           crash = None\<rparr>))))"

section \<open>Concrete runs\<close>

text \<open>
  A world with the folder \<^verbatim>\<open>/data\<close> (empty), a public key ring holding one recipient and a
  private key ring holding one signer whose key is locked with the passphrase \<^verbatim>\<open>pw1\<close>; the
  engine and the object store accept every call.
\<close>

definition stat_example :: stat_oracle where
  "stat_example path =
     (if path = ''/data'' then Inr \<lparr>IsDir = True\<rparr>
      else if path = ''/keys/pub.asc'' \<or> path = ''/keys/priv.asc'' then Inr \<lparr>IsDir = False\<rparr>
      else Inl ENOENT)"

definition recipient1 :: entity where
  "recipient1 = \<lparr>KeyId = 1, PrivateKey = None\<rparr>"

definition signer_locked :: entity where
  "signer_locked = \<lparr>KeyId = 2, PrivateKey = Some \<lparr>Encrypted = True\<rparr>\<rparr>"

definition signer_ready :: entity where
  "signer_ready = \<lparr>KeyId = 3, PrivateKey = Some \<lparr>Encrypted = False\<rparr>\<rparr>"

definition world_example :: world where
  "world_example =
     \<lparr>fs_Stat = stat_example,
      fs_Node = (\<lambda>path. Dir []),
      fs_Open = (\<lambda>path. if path = ''/keys/pub.asc'' then Inr ''PUB''
                        else if path = ''/keys/priv.asc'' then Inr ''PRIV''
                        else Inl (PathError ENOENT)),
      pgp_ReadArmoredKeyRing = (\<lambda>blob. if blob = ''PUB'' then Inr [recipient1]
                        else if blob = ''PRIV'' then Inr [signer_locked]
                        else Inl (LibError ''openpgp: invalid argument: no armored data found'')),
      pgp_Decrypt = (\<lambda>e pw. if pw = ''pw1'' then None
                        else Some (LibError ''openpgp: invalid data: private key checksum failure'')),
      pgp_Encrypt = (\<lambda>to signed. (''[session keys]'', None)),
      pgp_Write = (\<lambda>to signed zipBuffer. (''[data]'', None)),
      pgp_Close = (\<lambda>to signed zipBuffer. (''[signature]'', None)),
      aws_NewSession = (\<lambda>region accessKey secretKey. None),
      s3_PutObject = (\<lambda>bucketName fileName body. None)\<rparr>"

definition flags_example :: flags where
  "flags_example =
     \<lparr>flag_folder = ''/data'', flag_tpubkey = ''/keys/pub.asc'',
      flag_sprivkey = ''/keys/priv.asc'', flag_signingpassword = ''pw1'',
      flag_bucket = ''backups'', flag_s3key = ''data.zip.gpg'', flag_aws_region = ''eu-north-1'',
      flag_aws_access_key = ''AK'', flag_aws_secret_key = ''SK''\<rparr>"

text \<open>
  The same world where \<^verbatim>\<open>os.Stat\<close> of the folder fails with \<^verbatim>\<open>EACCES\<close> (a parent directory
  that the process may not search), and where it fails with \<^verbatim>\<open>ENOTDIR\<close> (the folder path
  runs through a regular file, as in \<^verbatim>\<open>/etc/hostname/data\<close>).
\<close>

definition stat_denied :: stat_oracle where
  "stat_denied path = (if path = ''/data'' then Inl EACCES else stat_example path)"

definition stat_notdir :: stat_oracle where
  "stat_notdir path = (if path = ''/etc/hostname/data'' then Inl ENOTDIR else stat_example path)"

text \<open>
  A private key ring that lists an identity without private key material before a ready
  signer, and a world whose engine fails when the writer is closed (the signature cannot
  be made) after it has written the session keys and the data.
\<close>

definition public_only :: entity where
  "public_only = \<lparr>KeyId = 4, PrivateKey = None\<rparr>"

definition world_two_identities :: world where
  "world_two_identities =
     world_example\<lparr>pgp_ReadArmoredKeyRing :=
       (\<lambda>blob. if blob = ''PUB'' then Inr [recipient1]
               else if blob = ''PRIV'' then Inr [public_only, signer_ready]
               else Inl (LibError ''openpgp: invalid argument: no armored data found''))\<rparr>"

definition world_close_fails :: world where
  "world_close_fails =
     world_example\<lparr>pgp_Close :=
       (\<lambda>to signed zipBuffer. ([], Some (LibError ''openpgp: signing failed'')))\<rparr>"

definition empty_archive :: archive where
  "empty_archive = \<lparr>entries = [], finalized = True\<rparr>"

text \<open>
  A world whose public key ring parses to no identity at all, an archive with one entry,
  and a reader that knows the one message the engine of \<^verbatim>\<open>world_example\<close> writes.
\<close>

definition world_no_recipient :: world where
  "world_no_recipient =
     world_example\<lparr>pgp_ReadArmoredKeyRing :=
       (\<lambda>blob. if blob = ''PUB'' then Inr []
               else if blob = ''PRIV'' then Inr [signer_locked]
               else Inl (LibError ''openpgp: invalid argument: no armored data found''))\<rparr>"



section \<open>Auxiliary facts\<close>

subsection \<open>The walk with the callback of \<^verbatim>\<open>ZipFolder\<close>\<close>

lemma insort_key_map_snd:
  "insort_key fst (fst a, g (snd a)) (map (\<lambda>p. (fst p, g (snd p))) xs)
     = map (\<lambda>p. (fst p, g (snd p))) (insort_key fst a xs)"
  by (induction xs) auto

lemma sort_key_map_snd:
  "sort_key fst (map (\<lambda>p. (fst p, g (snd p))) es) = map (\<lambda>p. (fst p, g (snd p))) (sort_key fst es)"
  by (induction es) (auto simp: insort_key_map_snd)

lemma sort_key_twice: "sort_key f (sort_key f xs) = sort_key f xs"
  by (simp add: sort_key_id_if_sorted)

lemma zip_callback_dir [simp]:
  "zip_callback fp zw path node (Some \<lparr>IsDir = True\<rparr>) err = (NoError, zw)"
  by (simp add: zip_callback_def)

lemma zip_callback_nil [simp]:
  "zip_callback fp zw path node None err = (Panic NilDereference, zw)"
  by (simp add: zip_callback_def)

lemma os_Lstat_sort_listings [simp]: "os_Lstat (sort_listings t) = os_Lstat t"
  by (cases t) auto

lemma walk_sort_listings:
  "fn = zip_callback fp \<Longrightarrow> walk fn path t zw = walk fn path (sort_listings t) zw"
  "fn = zip_callback fp \<Longrightarrow> walk_names fn path es zw
     = walk_names fn path (map (\<lambda>p. (fst p, sort_listings (snd p))) es) zw"
proof (induction fn path t zw and fn path es zw rule: walk_walk_names.induct)
  case (1 fn path r st)
  then show ?case by simp
next
  case (2 fn path es st)
  then show ?case
    by (simp add: sort_key_twice sort_key_map_snd)
next
  case (3 fn path e st)
  then show ?case by simp
next
  case (4 fn path e st)
  then show ?case by simp
next
  case (5 fn path st)
  then show ?case by simp
next
  case (6 fn path name child rest st)
  then show ?case
  proof (cases "os_Lstat child")
    case (Pair fileInfo err)
    note L = this
    show ?thesis
    proof (cases err)
      case None
      note N = this
      have a: "walk fn (Join path name) child st = walk fn (Join path name) (sort_listings child) st"
        using 6(1)[OF refl L[symmetric] N 6(4)] .
      show ?thesis
      proof (cases "walk fn (Join path name) child st")
        case (Pair r st1)
        note W = this
        show ?thesis
        proof (cases r)
          case NoError
          have "walk_names fn path rest st1
             = walk_names fn path (map (\<lambda>p. (fst p, sort_listings (snd p))) rest) st1"
            using 6(2)[OF refl L[symmetric] N W[symmetric] NoError 6(4)] .
          then show ?thesis
            using a[symmetric] W NoError L N by simp
        next
          case (Err e)
          then show ?thesis
            using a[symmetric] W L N by simp
        next
          case (Panic p)
          then show ?thesis
            using a[symmetric] W L N by simp
        qed
      qed
    next
      case (Some e)
      then have c: "child = NoStat e" using L by (cases child) auto
      show ?thesis using 6(4) c by simp
    qed
  qed
qed

lemma walk_only_dirs:
  "fn = zip_callback fp \<Longrightarrow> only_dirs t \<Longrightarrow> walk fn path t zw = (NoError, zw)"
  "fn = zip_callback fp \<Longrightarrow> list_all (\<lambda>p. only_dirs (snd p)) es \<Longrightarrow> walk_names fn path es zw = (NoError, zw)"
proof (induction fn path t zw and fn path es zw rule: walk_walk_names.induct)
  case (2 fn path es st)
  have "list_all (\<lambda>p. only_dirs (snd p)) (sort_key fst es)"
    using 2(3) by (simp add: list_all_iff)
  then show ?case
    using 2(1)[OF _ refl 2(2)] 2(2) by simp
next
  case (6 fn path name child rest st)
  from 6(5) have c: "only_dirs child" and r: "list_all (\<lambda>p. only_dirs (snd p)) rest"
    by simp_all
  from c obtain es where d: "child = Dir es" by (cases child) auto
  have L: "(Some \<lparr>IsDir = True\<rparr>, None) = os_Lstat child" using d by simp
  have w: "walk fn (Join path name) child st = (NoError, st)"
    using 6(1)[OF refl L refl 6(4) c] .
  have "walk_names fn path rest st = (NoError, st)"
    using 6(2)[OF refl L refl w[symmetric] refl 6(4) r] .
  then show ?case using w d by simp
qed auto

lemma ZipFolder_sort_listings:
  "ZipFolder folderPath t = ZipFolder folderPath (sort_listings t)"
proof -
  have "Walk (zip_callback folderPath) folderPath t NewWriter
      = Walk (zip_callback folderPath) folderPath (sort_listings t) NewWriter"
    using walk_sort_listings(1)[OF refl, of folderPath folderPath t NewWriter]
    by (simp add: Walk_def split: prod.splits option.splits)
  then show ?thesis unfolding ZipFolder_def by simp
qed

lemma ZipFolder_only_dirs:
  "only_dirs t \<Longrightarrow> ZipFolder folderPath t = (NoError, \<lparr>entries = [], finalized = True\<rparr>)"
proof -
  assume h: "only_dirs t"
  then obtain es where d: "t = Dir es" by (cases t) auto
  have "walk (zip_callback folderPath) folderPath t NewWriter = (NoError, NewWriter)"
    using walk_only_dirs(1)[OF refl h] .
  then show ?thesis
    using d by (simp add: ZipFolder_def Walk_def zip_Close_def NewWriter_def)
qed

subsection \<open>Unlocking and the events of a run\<close>

lemma unlock_loop_fails:
  "e \<in> set es \<Longrightarrow> locked e \<Longrightarrow> dec e pw \<noteq> None \<Longrightarrow>
   \<exists>err e'. unlock_loop dec pw es = Inl err \<and> e' \<in> set es \<and> locked e' \<and> dec e' pw = Some err"
proof (induction es)
  case Nil
  then show ?case by simp
next
  case (Cons a es)
  show ?case
  proof (cases "locked a \<and> dec a pw \<noteq> None")
    case True
    then show ?thesis by auto
  next
    case False
    then have "e \<in> set es" using Cons.prems by auto
    from Cons.IH[OF this Cons.prems(2,3)] obtain err e' where
      "unlock_loop dec pw es = Inl err" "e' \<in> set es" "locked e'" "dec e' pw = Some err"
      by blast
    then show ?thesis using False by auto
  qed
qed

lemma unlock_loop_head:
  "unlock_loop dec pw (first # rest) = Inr l \<Longrightarrow>
   \<exists>others. l = (if locked first then unlocked first else first) # others"
  by (auto split: if_splits option.splits simp: map_sum_def split: sum.splits)

lemma EncryptAndSign_no_upload:
  "\<not> list_ex is_upload (snd (snd (EncryptAndSign w zb tpub spriv buf pw)))"
  by (simp add: EncryptAndSign_def split: sum.splits list.splits prod.splits)

lemma main_upload_needs_encryption:
  "list_ex is_upload (trace (main w f)) \<Longrightarrow>
   fst (EncryptAndSign w (snd (ZipFolder (flag_folder f) (fs_Node w (flag_folder f))))
          (flag_tpubkey f) (flag_sprivkey f) [] (flag_signingpassword f)) = NoError"
  using EncryptAndSign_no_upload[of w "snd (ZipFolder (flag_folder f) (fs_Node w (flag_folder f)))"
          "flag_tpubkey f" "flag_sprivkey f" "[]" "flag_signingpassword f"]
  by (auto simp: main_def split: ret.splits prod.splits)

lemma encrypt_steps_result:
  assumes "openpgp_Encrypt w to signed = (out1, err1)"
      and "pgp_Write w to signed z = (out2, err2)"
      and "pgp_Close w to signed z = (out3, err3)"
    shows "encrypt_steps w z to signed buf =
             (case err1 of Some e \<Rightarrow> Err e
              | None \<Rightarrow> (case err2 of Some e \<Rightarrow> Err e
                 | None \<Rightarrow> (case err3 of Some e \<Rightarrow> Err e | None \<Rightarrow> NoError)),
              buf @ out1 @ (if err1 = None then out2 @ (if err2 = None then out3 else []) else []))"
  using assms by (simp add: encrypt_steps_def split: option.splits)

lemma EncryptAndSign_after_unlock:
  assumes "fs_Open w trustedPublicKeyPath = Inr publicKeyFile"
      and "pgp_ReadArmoredKeyRing w publicKeyFile = Inr to"
      and "fs_Open w serverPrivateKeyPath = Inr privateKeyFile"
      and "pgp_ReadArmoredKeyRing w privateKeyFile = Inr parsed"
      and "unlock_loop (pgp_Decrypt w) signingKeyPassword parsed = Inr (signed # others)"
    shows "EncryptAndSign w z trustedPublicKeyPath serverPrivateKeyPath buf signingKeyPassword =
             (fst (encrypt_steps w z to signed buf), snd (encrypt_steps w z to signed buf),
              [EvOpen trustedPublicKeyPath, EvOpen serverPrivateKeyPath, EvEncrypt to signed])"
  using assms by (simp add: EncryptAndSign_def split: prod.splits)

lemma openpgp_Encrypt_rejects:
  "to = [] \<or> \<not> usable signed \<Longrightarrow> \<exists>err. snd (openpgp_Encrypt w to signed) = Some err"
  by (auto simp: openpgp_Encrypt_def usable_def split: prod.splits option.splits)

lemma openpgp_Encrypt_no_recipient:
  "openpgp_Encrypt w [] signed
     = ([], Some (LibError ''openpgp: invalid argument: no encryption recipient provided''))"
  by (simp add: openpgp_Encrypt_def)


lemma main_successful_run:
  assumes "validateInputs (fs_Stat w) (flag_folder f) (flag_tpubkey f) (flag_sprivkey f)
             (flag_signingpassword f) (flag_bucket f) (flag_s3key f) (flag_aws_region f)
             (flag_aws_access_key f) (flag_aws_secret_key f) = NoError"
      and "ZipFolder (flag_folder f) (fs_Node w (flag_folder f)) = (NoError, z)"
      and "EncryptAndSign w z (flag_tpubkey f) (flag_sprivkey f) [] (flag_signingpassword f)
             = (NoError, message, evs)"
      and "aws_NewSession w (flag_aws_region f) (flag_aws_access_key f) (flag_aws_secret_key f)
             = None"
      and "s3_PutObject w (flag_bucket f) (flag_s3key f) message = None"
    shows "main w f =
             \<lparr>trace = EvWalk (flag_folder f) # evs
                        @ [EvNewSession (flag_aws_region f),
                           EvPutObject (flag_bucket f) (flag_s3key f) message,
                           EvPrintSuccess (flag_bucket f) (flag_s3key f)],
              crash = None\<rparr>"
  using assms by (simp add: main_def UploadToS3_def)

lemma validation_error_reported:
  "validateInputs (fs_Stat w) (flag_folder f) (flag_tpubkey f) (flag_sprivkey f)
     (flag_signingpassword f) (flag_bucket f) (flag_s3key f) (flag_aws_region f)
     (flag_aws_access_key f) (flag_aws_secret_key f) = Err err \<Longrightarrow>
   main w f = \<lparr>trace = [EvPrintError err], crash = None\<rparr>"
  by (simp add: main_def)

lemma validateInputs_rejects:
  assumes "isDirExists st folderPath \<noteq> Inl NilDereference"
      and "folderPath = [] \<or> isDirExists st folderPath = Inr False
           \<or> trustedPublicKeyPath = [] \<or> \<not> isFileExists st trustedPublicKeyPath
           \<or> serverPrivateKeyPath = [] \<or> \<not> isFileExists st serverPrivateKeyPath
           \<or> signingKeyPassword = [] \<or> bucketName = [] \<or> s3KeyName = [] \<or> awsRegion = []
           \<or> awsAccessKey = [] \<or> awsSecretKey = []"
    shows "\<exists>err. validateInputs st folderPath trustedPublicKeyPath serverPrivateKeyPath
             signingKeyPassword bucketName s3KeyName awsRegion awsAccessKey awsSecretKey = Err err"
proof (cases "isDirExists st folderPath")
  case (Inl p)
  then show ?thesis using assms(1) by (cases p) (auto simp: isDirExists_def split: prod.splits option.splits if_splits)
next
  case (Inr b)
  then show ?thesis using assms(2) by (cases b) (auto simp: validateInputs_def)
qed

section \<open>Validation\<close>

text \<open>
  C9 (the code departs from it). The property: whenever one of the nine values is
  missing or invalid, including a folder path that is not an existing directory,
  validation fails before any stage runs, the error is reported and \<^verbatim>\<open>main\<close> returns
  cleanly. For a folder path that runs through a regular file, \<^verbatim>\<open>os.Stat\<close> fails with
  \<^verbatim>\<open>ENOTDIR\<close>, which is not a not-exist error: \<^verbatim>\<open>isDirExists\<close> dereferences the nil
  \<^verbatim>\<open>info\<close>, and the run ends in a panic with nothing reported. (No stage runs in that
  case either; for every other invalid value \<^verbatim>\<open>validateInputs_rejects\<close> and
  \<^verbatim>\<open>validation_error_reported\<close> give the report and the clean return.)
\<close>

theorem main_panics_on_stat_error:
  "main (world_example\<lparr>fs_Stat := stat_notdir\<rparr>)
        (flags_example\<lparr>flag_folder := ''/etc/hostname/data''\<rparr>)
     = \<lparr>trace = [], crash = Some NilDereference\<rparr>"
  by (simp add: main_def validateInputs_def isDirExists_def os_Stat_def stat_notdir_def
        world_example_def flags_example_def)

text \<open>
  C10 (the code departs from it). The property: \<^verbatim>\<open>isDirExists\<close> returns a boolean
  without dereferencing a nil file-info value, also when \<^verbatim>\<open>os.Stat\<close> fails for a reason
  other than non-existence. On a path whose \<^verbatim>\<open>Stat\<close> fails with \<^verbatim>\<open>EACCES\<close> the error is not
  a not-exist error, \<^verbatim>\<open>info\<close> is nil, and \<^verbatim>\<open>info.IsDir()\<close> panics; \<^verbatim>\<open>validateInputs\<close> panics
  with it. \<^verbatim>\<open>isFileExists\<close>, which never touches \<^verbatim>\<open>info\<close>, answers \<^verbatim>\<open>true\<close> on the same
  failure.
\<close>

theorem isDirExists_panics_on_stat_permission_error:
  "isDirExists stat_denied ''/data'' = Inl NilDereference
   \<and> validateInputs stat_denied ''/data'' ''/keys/pub.asc'' ''/keys/priv.asc'' ''pw1''
        ''backups'' ''data.zip.gpg'' ''eu-north-1'' ''AK'' ''SK'' = Panic NilDereference
   \<and> isFileExists stat_denied ''/data'' = True"
  by (simp add: isDirExists_def isFileExists_def validateInputs_def os_Stat_def stat_denied_def)

section \<open>The archiver\<close>

text \<open>
  C3 (the code departs from it). The property: the entry name that \<^verbatim>\<open>ZipFolder\<close> records
  for a file never begins with a path separator and never contains a \<^verbatim>\<open>..\<close> element,
  whether or not the root path ends with a separator. \<^verbatim>\<open>ZipFolder\<close> strips the prefix
  \<^verbatim>\<open>folderPath + "/"\<close> from the paths of the walk, and the walk builds them with \<^verbatim>\<open>Join\<close>,
  which cleans them. For the root \<^verbatim>\<open>/tmp/dir/\<close> the prefix is \<^verbatim>\<open>/tmp/dir//\<close>, no path of
  the walk starts with it, and the entry is named \<^verbatim>\<open>/tmp/dir/a.txt\<close>; for the root
  \<^verbatim>\<open>../x/\<close> it is named \<^verbatim>\<open>../x/a.txt\<close>. Without the trailing separator the name is
  \<^verbatim>\<open>a.txt\<close>.
\<close>

theorem ZipFolder_trailing_separator_entry_names:
  "ZipFolder ''/tmp/dir/'' (Dir [(''a.txt'', File (Inr ''hello''))])
     = (NoError, \<lparr>entries = [(''/tmp/dir/a.txt'', ''hello'')], finalized = True\<rparr>)
   \<and> ZipFolder ''../x/'' (Dir [(''a.txt'', File (Inr ''hello''))])
     = (NoError, \<lparr>entries = [(''../x/a.txt'', ''hello'')], finalized = True\<rparr>)
   \<and> ZipFolder ''/tmp/dir'' (Dir [(''a.txt'', File (Inr ''hello''))])
     = (NoError, \<lparr>entries = [(''a.txt'', ''hello'')], finalized = True\<rparr>)"
  by (simp add: ZipFolder_def Walk_def zip_callback_def Join_def Clean_def TrimPrefix_def
        zip_Create_def zip_Write_def zip_Close_def NewWriter_def)

text \<open>
  C5. Two invocations of \<^verbatim>\<open>ZipFolder\<close> on an unchanged tree fill their buffers with the
  same archive: the same entries with the same contents in the same order, whatever
  the order in which the operating system lists each directory, because the walk
  visits the names of every directory in lexicographic order. Unchanged tree: the two
  invocations see trees \<^verbatim>\<open>t\<close> and \<^verbatim>\<open>t'\<close> that agree once every listing is sorted.
\<close>

theorem ZipFolder_deterministic:
  "sort_listings t = sort_listings t' \<Longrightarrow> ZipFolder folderPath t = ZipFolder folderPath t'"
  using ZipFolder_sort_listings[of folderPath t] ZipFolder_sort_listings[of folderPath t'] by simp

theorem ZipFolder_deterministic_witness:
  "sort_listings (Dir [(''sub'', Dir [(''b.txt'', File (Inr ''world''))]), (''a.txt'', File (Inr ''hello''))])
     = sort_listings (Dir [(''a.txt'', File (Inr ''hello'')), (''sub'', Dir [(''b.txt'', File (Inr ''world''))])])
   \<and> ZipFolder ''/data'' (Dir [(''sub'', Dir [(''b.txt'', File (Inr ''world''))]), (''a.txt'', File (Inr ''hello''))])
     = ZipFolder ''/data'' (Dir [(''a.txt'', File (Inr ''hello'')), (''sub'', Dir [(''b.txt'', File (Inr ''world''))])])
   \<and> ZipFolder ''/data'' (Dir [(''a.txt'', File (Inr ''hello'')), (''sub'', Dir [(''b.txt'', File (Inr ''world''))])])
     = (NoError, \<lparr>entries = [(''a.txt'', ''hello''), (''sub/b.txt'', ''world'')], finalized = True\<rparr>)"
proof -
  have h: "sort_listings (Dir [(''sub'', Dir [(''b.txt'', File (Inr ''world''))]), (''a.txt'', File (Inr ''hello''))])
     = sort_listings (Dir [(''a.txt'', File (Inr ''hello'')), (''sub'', Dir [(''b.txt'', File (Inr ''world''))])])"
    by simp
  have v: "ZipFolder ''/data'' (Dir [(''a.txt'', File (Inr ''hello'')), (''sub'', Dir [(''b.txt'', File (Inr ''world''))])])
     = (NoError, \<lparr>entries = [(''a.txt'', ''hello''), (''sub/b.txt'', ''world'')], finalized = True\<rparr>)"
    by (simp add: ZipFolder_def Walk_def zip_callback_def Join_def Clean_def TrimPrefix_def
        zip_Create_def zip_Write_def zip_Close_def NewWriter_def)
  show ?thesis using h ZipFolder_deterministic[OF h, of "''/data''"] v by simp
qed

text \<open>
  C7 (the code departs from it). The property: when a visited path cannot be read or
  its \<^verbatim>\<open>Lstat\<close> fails during the walk, \<^verbatim>\<open>ZipFolder\<close> fails with an I/O error and hands no
  partial archive to its caller. The callback never looks at the error that the walk
  passes to it. For a subdirectory whose listing fails it returns nil, the walk skips
  the subdirectory, and \<^verbatim>\<open>ZipFolder\<close> returns nil with a finalized archive that lacks the
  files below it. For a path whose \<^verbatim>\<open>Lstat\<close> fails it dereferences the nil \<^verbatim>\<open>info\<close> and
  panics.
\<close>

theorem ZipFolder_skips_unreadable_directory:
  "ZipFolder ''/data''
      (Dir [(''a.txt'', File (Inr ''hello'')), (''sub'', DirUnreadable (PathError EACCES))])
     = (NoError, \<lparr>entries = [(''a.txt'', ''hello'')], finalized = True\<rparr>)
   \<and> ZipFolder ''/data''
      (Dir [(''a.txt'', File (Inr ''hello'')), (''b.txt'', NoStat (PathError ENOENT))])
     = (Panic NilDereference, \<lparr>entries = [(''a.txt'', ''hello'')], finalized = False\<rparr>)"
  by (simp add: ZipFolder_def Walk_def zip_callback_def Join_def Clean_def TrimPrefix_def
        zip_Create_def zip_Write_def zip_Close_def NewWriter_def)

text \<open>
  C8. For a tree without files (directories only, each of them listable) \<^verbatim>\<open>ZipFolder\<close>
  returns nil and the buffer holds a finalized archive with no entry; and when the key
  rings load, the signer unlocks and the engine accepts this payload, \<^verbatim>\<open>EncryptAndSign\<close>
  returns nil for it and has appended to the output buffer the whole message the
  engine made of it: the session keys, the data and the signature, in this order.
\<close>

theorem ZipFolder_empty_tree:
  assumes "only_dirs t"
      and "fs_Open w trustedPublicKeyPath = Inr publicKeyFile"
      and "pgp_ReadArmoredKeyRing w publicKeyFile = Inr to"
      and "fs_Open w serverPrivateKeyPath = Inr privateKeyFile"
      and "pgp_ReadArmoredKeyRing w privateKeyFile = Inr parsed"
      and "unlock_loop (pgp_Decrypt w) signingKeyPassword parsed = Inr (signed # others)"
      and "openpgp_Encrypt w to signed = (out1, None)"
      and "pgp_Write w to signed \<lparr>entries = [], finalized = True\<rparr> = (out2, None)"
      and "pgp_Close w to signed \<lparr>entries = [], finalized = True\<rparr> = (out3, None)"
    shows "ZipFolder folderPath t = (NoError, \<lparr>entries = [], finalized = True\<rparr>)
         \<and> EncryptAndSign w (snd (ZipFolder folderPath t)) trustedPublicKeyPath
               serverPrivateKeyPath encryptedBuffer signingKeyPassword
             = (NoError, encryptedBuffer @ out1 @ out2 @ out3,
                [EvOpen trustedPublicKeyPath, EvOpen serverPrivateKeyPath, EvEncrypt to signed])"
proof -
  have z: "ZipFolder folderPath t = (NoError, \<lparr>entries = [], finalized = True\<rparr>)"
    using ZipFolder_only_dirs[OF assms(1)] .
  have "encrypt_steps w \<lparr>entries = [], finalized = True\<rparr> to signed encryptedBuffer
          = (NoError, encryptedBuffer @ out1 @ out2 @ out3)"
    using encrypt_steps_result[OF assms(7,8,9), of encryptedBuffer] by simp
  then show ?thesis
    using z EncryptAndSign_after_unlock[OF assms(2-6), of "\<lparr>entries = [], finalized = True\<rparr>"
              encryptedBuffer]
    by simp
qed

theorem ZipFolder_empty_tree_witness:
  "only_dirs (Dir [(''sub'', Dir []), (''logs'', Dir [(''old'', Dir [])])])
   \<and> ZipFolder ''/data'' (Dir [(''sub'', Dir []), (''logs'', Dir [(''old'', Dir [])])])
       = (NoError, \<lparr>entries = [], finalized = True\<rparr>)
   \<and> EncryptAndSign world_example
         (snd (ZipFolder ''/data'' (Dir [(''sub'', Dir []), (''logs'', Dir [(''old'', Dir [])])])))
         ''/keys/pub.asc'' ''/keys/priv.asc'' [] ''pw1''
       = (NoError, ''[session keys][data][signature]'',
          [EvOpen ''/keys/pub.asc'', EvOpen ''/keys/priv.asc'',
           EvEncrypt [recipient1] (unlocked signer_locked)])"
proof -
  have "only_dirs (Dir [(''sub'', Dir []), (''logs'', Dir [(''old'', Dir [])])])"
    and "fs_Open world_example ''/keys/pub.asc'' = Inr ''PUB''"
    and "pgp_ReadArmoredKeyRing world_example ''PUB'' = Inr [recipient1]"
    and "fs_Open world_example ''/keys/priv.asc'' = Inr ''PRIV''"
    and "pgp_ReadArmoredKeyRing world_example ''PRIV'' = Inr [signer_locked]"
    and "unlock_loop (pgp_Decrypt world_example) ''pw1'' [signer_locked]
           = Inr (unlocked signer_locked # [])"
    and "openpgp_Encrypt world_example [recipient1] (unlocked signer_locked)
           = (''[session keys]'', None)"
    and "pgp_Write world_example [recipient1] (unlocked signer_locked)
           \<lparr>entries = [], finalized = True\<rparr> = (''[data]'', None)"
    and "pgp_Close world_example [recipient1] (unlocked signer_locked)
           \<lparr>entries = [], finalized = True\<rparr> = (''[signature]'', None)"
    by (simp_all add: world_example_def locked_def unlocked_def signer_locked_def
          openpgp_Encrypt_def)
  from this(1) ZipFolder_empty_tree[OF this, of "''/data''" "[]", unfolded append_Cons append_Nil]
  show ?thesis by blast
qed

section \<open>Signing and encryption\<close>

text \<open>
  C2, as the specification words it, fails: the signer would be the first identity, in
  listed order, with usable private key material, and an identity without such
  material would never be chosen while a later usable one exists. With a private key
  ring that lists an identity without private key before a ready signer, the identity
  handed to \<^verbatim>\<open>openpgp.Encrypt\<close> is the first one, while the first usable one is the second.
\<close>

theorem signer_not_first_usable_counterexample:
  "snd (snd (EncryptAndSign world_two_identities empty_archive ''/keys/pub.asc''
               ''/keys/priv.asc'' [] ''pw1''))
     = [EvOpen ''/keys/pub.asc'', EvOpen ''/keys/priv.asc'', EvEncrypt [recipient1] public_only]
   \<and> first_usable [public_only, signer_ready] = Some signer_ready
   \<and> \<not> usable public_only"
  by (simp add: EncryptAndSign_def encrypt_steps_def openpgp_Encrypt_def
        world_two_identities_def world_example_def locked_def public_only_def signer_ready_def
        recipient1_def first_usable_def usable_def)

text \<open>
  C2, amended. Whenever both key rings load and no unlock fails, the signer handed to
  \<^verbatim>\<open>openpgp.Encrypt\<close> is the identity listed first in the private key ring, as the unlock
  loop left it, whether or not it holds usable private key material; it is the first
  usable identity exactly when it is usable itself.
\<close>

theorem EncryptAndSign_signs_with_first_identity:
  assumes "fs_Open w trustedPublicKeyPath = Inr publicKeyFile"
      and "pgp_ReadArmoredKeyRing w publicKeyFile = Inr publicKeyList"
      and "fs_Open w serverPrivateKeyPath = Inr privateKeyFile"
      and "pgp_ReadArmoredKeyRing w privateKeyFile = Inr (first # rest)"
      and "unlock_loop (pgp_Decrypt w) signingKeyPassword (first # rest) = Inr privateKeyList"
    shows "snd (snd (EncryptAndSign w zipBuffer trustedPublicKeyPath serverPrivateKeyPath
                       encryptedBuffer signingKeyPassword))
             = [EvOpen trustedPublicKeyPath, EvOpen serverPrivateKeyPath,
                EvEncrypt publicKeyList (if locked first then unlocked first else first)]
         \<and> (first_usable privateKeyList = Some (if locked first then unlocked first else first))
             = usable (if locked first then unlocked first else first)"
proof -
  from unlock_loop_head[OF assms(5)] obtain others where
    l: "privateKeyList = (if locked first then unlocked first else first) # others" by blast
  have a: "snd (snd (EncryptAndSign w zipBuffer trustedPublicKeyPath serverPrivateKeyPath
                       encryptedBuffer signingKeyPassword))
             = [EvOpen trustedPublicKeyPath, EvOpen serverPrivateKeyPath,
                EvEncrypt publicKeyList (if locked first then unlocked first else first)]"
    using assms(1-4) assms(5)[unfolded l]
    by (simp add: EncryptAndSign_def split: prod.splits)
  have b: "(first_usable (s # others) = Some s) = usable s" for s
    using find_Some_iff[of usable others s] by (auto simp: first_usable_def)
  show ?thesis using a b l by simp
qed

theorem EncryptAndSign_signs_with_first_identity_witness:
  "snd (snd (EncryptAndSign world_two_identities empty_archive ''/keys/pub.asc''
               ''/keys/priv.asc'' [] ''pw1''))
     = [EvOpen ''/keys/pub.asc'', EvOpen ''/keys/priv.asc'', EvEncrypt [recipient1] public_only]
   \<and> (first_usable [public_only, signer_ready] = Some public_only) = usable public_only"
proof -
  have "fs_Open world_two_identities ''/keys/pub.asc'' = Inr ''PUB''"
    and "pgp_ReadArmoredKeyRing world_two_identities ''PUB'' = Inr [recipient1]"
    and "fs_Open world_two_identities ''/keys/priv.asc'' = Inr ''PRIV''"
    and "pgp_ReadArmoredKeyRing world_two_identities ''PRIV'' = Inr (public_only # [signer_ready])"
    and "unlock_loop (pgp_Decrypt world_two_identities) ''pw1'' (public_only # [signer_ready])
           = Inr [public_only, signer_ready]"
    by (simp_all add: world_two_identities_def world_example_def locked_def public_only_def
          signer_ready_def)
  from EncryptAndSign_signs_with_first_identity[OF this, of empty_archive "[]"] show ?thesis
    by (simp add: locked_def public_only_def)
qed

text \<open>
  C4. When the passphrase fails to unlock a locked private key of the private key ring
  (the signer's in particular), \<^verbatim>\<open>EncryptAndSign\<close> returns the error of a failed unlock,
  leaves the output buffer as it was, and the run contains no call of \<^verbatim>\<open>UploadToS3\<close>:
  neither a session is created nor an object put.
\<close>

theorem wrong_passphrase_fails_before_upload:
  assumes "fs_Open w (flag_tpubkey f) = Inr publicKeyFile"
      and "pgp_ReadArmoredKeyRing w publicKeyFile = Inr publicKeyList"
      and "fs_Open w (flag_sprivkey f) = Inr privateKeyFile"
      and "pgp_ReadArmoredKeyRing w privateKeyFile = Inr privateKeyList"
      and "signer \<in> set privateKeyList"
      and "locked signer"
      and "pgp_Decrypt w signer (flag_signingpassword f) \<noteq> None"
    shows "(\<exists>err e. fst (EncryptAndSign w zipBuffer (flag_tpubkey f) (flag_sprivkey f)
                          encryptedBuffer (flag_signingpassword f)) = Err err
              \<and> e \<in> set privateKeyList \<and> locked e
              \<and> pgp_Decrypt w e (flag_signingpassword f) = Some err)
         \<and> fst (snd (EncryptAndSign w zipBuffer (flag_tpubkey f) (flag_sprivkey f)
                          encryptedBuffer (flag_signingpassword f))) = encryptedBuffer
         \<and> \<not> list_ex is_upload (trace (main w f))"
proof -
  from unlock_loop_fails[of signer privateKeyList "pgp_Decrypt w" "flag_signingpassword f", OF assms(5,6,7)] obtain err e where
    u: "unlock_loop (pgp_Decrypt w) (flag_signingpassword f) privateKeyList = Inl err"
    and e: "e \<in> set privateKeyList" "locked e" "pgp_Decrypt w e (flag_signingpassword f) = Some err"
    by blast
  have r: "EncryptAndSign w zb (flag_tpubkey f) (flag_sprivkey f) buf (flag_signingpassword f)
         = (Err err, buf, [EvOpen (flag_tpubkey f), EvOpen (flag_sprivkey f)])" for zb buf
    using assms(1-4) u by (simp add: EncryptAndSign_def)
  have "\<not> list_ex is_upload (trace (main w f))"
    using main_upload_needs_encryption[of w f] r by auto
  then show ?thesis using r e by auto
qed

theorem wrong_passphrase_fails_before_upload_witness:
  "fst (EncryptAndSign world_example empty_archive ''/keys/pub.asc'' ''/keys/priv.asc'' []
          ''guess'')
     = Err (LibError ''openpgp: invalid data: private key checksum failure'')
   \<and> \<not> list_ex is_upload (trace (main world_example (flags_example\<lparr>flag_signingpassword := ''guess''\<rparr>)))"
proof -
  have "fs_Open world_example (flag_tpubkey (flags_example\<lparr>flag_signingpassword := ''guess''\<rparr>)) = Inr ''PUB''"
    and "pgp_ReadArmoredKeyRing world_example ''PUB'' = Inr [recipient1]"
    and "fs_Open world_example (flag_sprivkey (flags_example\<lparr>flag_signingpassword := ''guess''\<rparr>)) = Inr ''PRIV''"
    and "pgp_ReadArmoredKeyRing world_example ''PRIV'' = Inr [signer_locked]"
    and "signer_locked \<in> set [signer_locked]"
    and "locked signer_locked"
    and "pgp_Decrypt world_example signer_locked
           (flag_signingpassword (flags_example\<lparr>flag_signingpassword := ''guess''\<rparr>)) \<noteq> None"
    by (simp_all add: world_example_def flags_example_def locked_def signer_locked_def)
  from wrong_passphrase_fails_before_upload[OF this, of empty_archive "[]"] show ?thesis
    by (auto simp: world_example_def flags_example_def)
qed

text \<open>
  C6, as the specification words it, fails: on every failure the output buffer would be
  left unchanged. When the engine fails at \<^verbatim>\<open>Close\<close>, after \<^verbatim>\<open>Encrypt\<close> has written the
  session keys and \<^verbatim>\<open>Write\<close> the data, \<^verbatim>\<open>EncryptAndSign\<close> returns the error and the buffer,
  empty before, holds what the engine wrote.
\<close>

theorem EncryptAndSign_buffer_changed_on_failure:
  "fst (EncryptAndSign world_close_fails empty_archive ''/keys/pub.asc'' ''/keys/priv.asc'' []
          ''pw1'') = Err (LibError ''openpgp: signing failed'')
   \<and> fst (snd (EncryptAndSign world_close_fails empty_archive ''/keys/pub.asc''
                  ''/keys/priv.asc'' [] ''pw1'')) = ''[session keys][data]''"
  by (simp add: EncryptAndSign_def encrypt_steps_def openpgp_Encrypt_def world_close_fails_def
        world_example_def locked_def unlocked_def signer_locked_def recipient1_def)

text \<open>
  C6, amended. Whenever the key rings load and the unlock loop passes with a first
  identity, and the recipient set is empty, or the signer is unusable, or the engine's
  \<^verbatim>\<open>Encrypt\<close>, \<^verbatim>\<open>Write\<close> or \<^verbatim>\<open>Close\<close> step reports an error, \<^verbatim>\<open>EncryptAndSign\<close> returns an error:
  the error of the first step that fails, and of no later one. With an empty recipient
  set the output buffer is left unchanged. In general the buffer is not restored: it
  holds its former content followed by everything the engine appended up to and
  including the failing step.
\<close>

theorem EncryptAndSign_failure_keeps_engine_output:
  assumes "fs_Open w trustedPublicKeyPath = Inr publicKeyFile"
      and "pgp_ReadArmoredKeyRing w publicKeyFile = Inr to"
      and "fs_Open w serverPrivateKeyPath = Inr privateKeyFile"
      and "pgp_ReadArmoredKeyRing w privateKeyFile = Inr parsed"
      and "unlock_loop (pgp_Decrypt w) signingKeyPassword parsed = Inr (signed # others)"
      and "openpgp_Encrypt w to signed = (out1, err1)"
      and "pgp_Write w to signed zipBuffer = (out2, err2)"
      and "pgp_Close w to signed zipBuffer = (out3, err3)"
      and "to = [] \<or> \<not> usable signed \<or> err1 \<noteq> None \<or> err2 \<noteq> None \<or> err3 \<noteq> None"
    shows "EncryptAndSign w zipBuffer trustedPublicKeyPath serverPrivateKeyPath encryptedBuffer
               signingKeyPassword
             = (case err1 of Some e \<Rightarrow> Err e
                | None \<Rightarrow> (case err2 of Some e \<Rightarrow> Err e
                   | None \<Rightarrow> (case err3 of Some e \<Rightarrow> Err e | None \<Rightarrow> NoError)),
                encryptedBuffer @ out1
                  @ (if err1 = None then out2 @ (if err2 = None then out3 else []) else []),
                [EvOpen trustedPublicKeyPath, EvOpen serverPrivateKeyPath, EvEncrypt to signed])
         \<and> (\<exists>err. fst (EncryptAndSign w zipBuffer trustedPublicKeyPath serverPrivateKeyPath
                          encryptedBuffer signingKeyPassword) = Err err)
         \<and> (to = [] \<longrightarrow>
              snd (EncryptAndSign w zipBuffer trustedPublicKeyPath serverPrivateKeyPath
                     encryptedBuffer signingKeyPassword)
                = (encryptedBuffer,
                   [EvOpen trustedPublicKeyPath, EvOpen serverPrivateKeyPath,
                    EvEncrypt to signed]))"
proof -
  have r: "EncryptAndSign w zipBuffer trustedPublicKeyPath serverPrivateKeyPath encryptedBuffer
               signingKeyPassword
             = (case err1 of Some e \<Rightarrow> Err e
                | None \<Rightarrow> (case err2 of Some e \<Rightarrow> Err e
                   | None \<Rightarrow> (case err3 of Some e \<Rightarrow> Err e | None \<Rightarrow> NoError)),
                encryptedBuffer @ out1
                  @ (if err1 = None then out2 @ (if err2 = None then out3 else []) else []),
                [EvOpen trustedPublicKeyPath, EvOpen serverPrivateKeyPath, EvEncrypt to signed])"
    using EncryptAndSign_after_unlock[OF assms(1-5), of zipBuffer encryptedBuffer]
          encrypt_steps_result[OF assms(6,7,8), of encryptedBuffer]
    by simp
  have "to = [] \<or> \<not> usable signed \<Longrightarrow> err1 \<noteq> None"
    using openpgp_Encrypt_rejects[of to signed w] assms(6) by auto
  then have e: "err1 \<noteq> None \<or> err2 \<noteq> None \<or> err3 \<noteq> None"
    using assms(9) by blast
  have n: "to = [] \<Longrightarrow> out1 = [] \<and> err1 \<noteq> None"
    using assms(6) openpgp_Encrypt_no_recipient[of w signed] by auto
  show ?thesis
    using r e n by (auto split: option.splits)
qed

theorem EncryptAndSign_failure_keeps_engine_output_witness:
  "EncryptAndSign world_close_fails empty_archive ''/keys/pub.asc'' ''/keys/priv.asc'' ''old''
       ''pw1''
     = (Err (LibError ''openpgp: signing failed''), ''old[session keys][data]'',
        [EvOpen ''/keys/pub.asc'', EvOpen ''/keys/priv.asc'',
         EvEncrypt [recipient1] (unlocked signer_locked)])
   \<and> EncryptAndSign world_no_recipient empty_archive ''/keys/pub.asc'' ''/keys/priv.asc'' ''old''
       ''pw1''
     = (Err (LibError ''openpgp: invalid argument: no encryption recipient provided''), ''old'',
        [EvOpen ''/keys/pub.asc'', EvOpen ''/keys/priv.asc'',
         EvEncrypt [] (unlocked signer_locked)])"
proof -
  have "fs_Open world_close_fails ''/keys/pub.asc'' = Inr ''PUB''"
    and "pgp_ReadArmoredKeyRing world_close_fails ''PUB'' = Inr [recipient1]"
    and "fs_Open world_close_fails ''/keys/priv.asc'' = Inr ''PRIV''"
    and "pgp_ReadArmoredKeyRing world_close_fails ''PRIV'' = Inr [signer_locked]"
    and "unlock_loop (pgp_Decrypt world_close_fails) ''pw1'' [signer_locked]
           = Inr (unlocked signer_locked # [])"
    and "openpgp_Encrypt world_close_fails [recipient1] (unlocked signer_locked)
           = (''[session keys]'', None)"
    and "pgp_Write world_close_fails [recipient1] (unlocked signer_locked) empty_archive
           = (''[data]'', None)"
    and "pgp_Close world_close_fails [recipient1] (unlocked signer_locked) empty_archive
           = ([], Some (LibError ''openpgp: signing failed''))"
    and "[recipient1] = [] \<or> \<not> usable (unlocked signer_locked) \<or> (None :: error option) \<noteq> None
           \<or> (None :: error option) \<noteq> None \<or> Some (LibError ''openpgp: signing failed'') \<noteq> None"
    by (simp_all add: world_close_fails_def world_example_def locked_def unlocked_def
          signer_locked_def openpgp_Encrypt_def)
  from EncryptAndSign_failure_keeps_engine_output[OF this, of "''old''"]
  have a: "EncryptAndSign world_close_fails empty_archive ''/keys/pub.asc'' ''/keys/priv.asc''
             ''old'' ''pw1''
     = (Err (LibError ''openpgp: signing failed''), ''old[session keys][data]'',
        [EvOpen ''/keys/pub.asc'', EvOpen ''/keys/priv.asc'',
         EvEncrypt [recipient1] (unlocked signer_locked)])"
    by simp
  have "fs_Open world_no_recipient ''/keys/pub.asc'' = Inr ''PUB''"
    and "pgp_ReadArmoredKeyRing world_no_recipient ''PUB'' = Inr []"
    and "fs_Open world_no_recipient ''/keys/priv.asc'' = Inr ''PRIV''"
    and "pgp_ReadArmoredKeyRing world_no_recipient ''PRIV'' = Inr [signer_locked]"
    and "unlock_loop (pgp_Decrypt world_no_recipient) ''pw1'' [signer_locked]
           = Inr (unlocked signer_locked # [])"
    and "openpgp_Encrypt world_no_recipient [] (unlocked signer_locked)
           = ([], Some (LibError ''openpgp: invalid argument: no encryption recipient provided''))"
    and "pgp_Write world_no_recipient [] (unlocked signer_locked) empty_archive
           = (''[data]'', None)"
    and "pgp_Close world_no_recipient [] (unlocked signer_locked) empty_archive
           = (''[signature]'', None)"
    and "([] :: entity list) = [] \<or> \<not> usable (unlocked signer_locked)
           \<or> Some (LibError ''openpgp: invalid argument: no encryption recipient provided'') \<noteq> None
           \<or> (None :: error option) \<noteq> None \<or> (None :: error option) \<noteq> None"
    by (simp_all add: world_no_recipient_def world_example_def locked_def unlocked_def
          signer_locked_def openpgp_Encrypt_def)
  from EncryptAndSign_failure_keeps_engine_output[OF this, of "''old''"]
  have b: "EncryptAndSign world_no_recipient empty_archive ''/keys/pub.asc'' ''/keys/priv.asc''
             ''old'' ''pw1''
     = (Err (LibError ''openpgp: invalid argument: no encryption recipient provided''), ''old'',
        [EvOpen ''/keys/pub.asc'', EvOpen ''/keys/priv.asc'',
         EvEncrypt [] (unlocked signer_locked)])"
    by simp
  show ?thesis using a b by simp
qed



end
